theory Spec2Isabelle
  imports Complex_Main
begin

section \<open>Values: the trees a parser hands over\<close>

text \<open>
  A wikitext syntax tree is a JavaScript value: every node is an object whose properties
  hold strings, numbers, booleans, arrays of nodes or further nodes. A property list keeps
  the properties in the order they were written; reading a property takes its first entry.
  Numbers are the rationals (the schema only ever compares a number with the literals 1 to 6;
  NaN and the infinities of the JavaScript number type are left out).
\<close>

datatype jv =
    Undefined
  | Null
  | Bool bool
  | Num rat
  | Str string
  | Arr "jv list"
  | Obj "(string \<times> jv) list"

definition prop_of :: "jv \<Rightarrow> string \<Rightarrow> jv option" where
  "prop_of v k = (case v of Obj fs \<Rightarrow> map_of fs k | _ \<Rightarrow> None)"

definition tag :: "jv \<Rightarrow> string option" where
  "tag v = (case prop_of v ''type'' of Some (Str s) \<Rightarrow> Some s | _ \<Rightarrow> None)"

definition children :: "jv \<Rightarrow> jv list" where
  "children v = (case prop_of v ''children'' of Some (Arr cs) \<Rightarrow> cs | _ \<Rightarrow> [])"

section \<open>Type expressions of the schema\<close>

text \<open>
  \<open>iname\<close> lists the interfaces of \<^verbatim>\<open>wtast.ts\<close> by their source names, together with the
  three interfaces it imports from \<^verbatim>\<open>unist\<close> (\<open>Node\<close>, and \<open>Parent\<close> and \<open>Literal\<close> under
  their import aliases \<open>UnistParent\<close> and \<open>UnistLiteral\<close>).
\<close>

datatype iname =
    Node | UnistParent | UnistLiteral
  | Parent | Literal | Root | Heading | ThematicBreak | ListItem
  | Table | TableRow | TableCell | HTML | Definition | FootnoteDefinition
  | Text | Emphasis | Strong | Delete | Break | Link | LinkReference
  | Footnote | FootnoteReference
  | Resource | Association | Reference | Alternative
  | Paragraph | List | Image | File | Signature | Redirect | TOC
  | Nowiki | References | Gallery | Math | SyntaxHighlighting

text \<open>
  A template literal type is a sequence of fixed text and holes; \<^verbatim>\<open>`${number}x${number}px`\<close>
  is \<open>[AnyNumber, Chunk ''x'', AnyNumber, Chunk ''px'']\<close>.
\<close>

datatype part = Chunk string | AnyString | AnyNumber

datatype ty =
    TUnknown
  | TString
  | TNumber
  | TBoolean
  | TNull
  | TUndefined
  | TStrLit string
  | TNumLit rat
  | TTemplate "part list"
  | TArray ty
  | TUnion "ty list"
  | TRef iname
  | TObject "member list"
and member =
    Req string ty
  | Opt string ty

fun member_name :: "member \<Rightarrow> string" where
  "member_name (Req k t) = k"
| "member_name (Opt k t) = k"

fun member_ty :: "member \<Rightarrow> ty" where
  "member_ty (Req k t) = t"
| "member_ty (Opt k t) = t"

text \<open>
  What an interface extends: another interface, or \<^verbatim>\<open>Omit<I, 'k'>\<close>, the interface \<open>I\<close>
  without the listed properties.
\<close>

datatype heritage = Extends iname | ExtendsOmit iname "string list"

section \<open>The content category maps\<close>

text \<open>
  Each \<^verbatim>\<open>...ContentMap\<close> interface registers node interfaces under a key. A map is the list
  of its entries in source order; \<^verbatim>\<open>PhrasingContentMap extends StaticPhrasingContentMap\<close>
  holds the inherited entries and its own two.
\<close>

type_synonym cmap = "(string \<times> iname) list"

definition BlockContentMap :: cmap where
  "BlockContentMap =
    [(''paragraph'', Paragraph),
     (''heading'', Heading),
     (''thematicbreak'', ThematicBreak),
     (''list'', List),
     (''table'', Table),
     (''html'', HTML),
     (''signature'', Signature),
     (''redirect'', Redirect),
     (''toc'', TOC),
     (''nowiki'', Nowiki),
     (''references'', References),
     (''gallery'', Gallery),
     (''math'', Math),
     (''syntaxHighlighting'', SyntaxHighlighting)]"

definition DefinitionContentMap :: cmap where
  "DefinitionContentMap =
    [(''definition'', Definition),
     (''footnoteDefinition'', FootnoteDefinition)]"

definition StaticPhrasingContentMap :: cmap where
  "StaticPhrasingContentMap =
    [(''text'', Text),
     (''emphasis'', Emphasis),
     (''strong'', Strong),
     (''html'', HTML),
     (''break'', Break),
     (''footnote'', Footnote),
     (''footnotereference'', FootnoteReference),
     (''nowiki'', Nowiki),
     (''references'', References),
     (''gallery'', Gallery),
     (''math'', Math),
     (''syntaxhighlighting'', SyntaxHighlighting)]"

definition PhrasingContentMap :: cmap where
  "PhrasingContentMap =
    StaticPhrasingContentMap @
    [(''link'', Link),
     (''linkReference'', LinkReference)]"

definition ListContentMap :: cmap where
  "ListContentMap = [(''listItem'', ListItem)]"

definition TableContentMap :: cmap where
  "TableContentMap = [(''tableRow'', TableRow)]"

definition RowContentMap :: cmap where
  "RowContentMap = [(''tableCell'', TableCell)]"

text \<open>\<^verbatim>\<open>M[keyof M]\<close>: the union of the interfaces a map registers.\<close>

definition indexed :: "cmap \<Rightarrow> ty" where
  "indexed m = TUnion (map (\<lambda>e. TRef (snd e)) m)"

definition BlockContent :: ty where
  "BlockContent = indexed BlockContentMap"

definition DefinitionContent :: ty where
  "DefinitionContent = indexed DefinitionContentMap"

definition ListContent :: ty where
  "ListContent = indexed ListContentMap"

definition TableContent :: ty where
  "TableContent = indexed TableContentMap"

definition RowContent :: ty where
  "RowContent = indexed RowContentMap"

definition PhrasingContent :: ty where
  "PhrasingContent = indexed PhrasingContentMap"

definition StaticPhrasingContent :: ty where
  "StaticPhrasingContent = indexed StaticPhrasingContentMap"

definition TopLevelContent :: ty where
  "TopLevelContent = TUnion [BlockContent, DefinitionContent]"

definition Content :: ty where
  "Content = TUnion [TopLevelContent, ListContent, TableContent, RowContent, PhrasingContent]"

definition ReferenceType :: ty where
  "ReferenceType = TUnion [TStrLit ''shortcut'', TStrLit ''collapsed'', TStrLit ''full'']"

definition IETFLangTag :: ty where
  "IETFLangTag = TString"

text \<open>\<^verbatim>\<open>string | null | undefined\<close> and \<^verbatim>\<open>boolean | null | undefined\<close>, as the source writes them.\<close>

definition string_null_undefined :: ty where
  "string_null_undefined = TUnion [TString, TNull, TUndefined]"

definition boolean_null_undefined :: ty where
  "boolean_null_undefined = TUnion [TBoolean, TNull, TUndefined]"

definition number_null_undefined :: ty where
  "number_null_undefined = TUnion [TNumber, TNull, TUndefined]"

section \<open>The node interfaces\<close>

text \<open>
  \<open>decl I\<close> is the declaration of interface \<open>I\<close>: what it extends and the properties its own
  body declares, in source order. Of the imported \<^verbatim>\<open>unist\<close> interfaces only the members the
  schema builds on are kept: \<open>type\<close> of \<open>Node\<close>, \<open>children\<close> of \<open>Parent\<close>, \<open>value\<close> of \<open>Literal\<close>.
\<close>

fun decl :: "iname \<Rightarrow> heritage list \<times> member list" where
  "decl Node = ([], [Req ''type'' TString])"
| "decl UnistParent = ([Extends Node], [Req ''children'' (TArray (TRef Node))])"
| "decl UnistLiteral = ([Extends Node], [Req ''value'' TUnknown])"
| "decl Parent = ([Extends UnistParent], [Req ''children'' (TArray Content)])"
| "decl Literal = ([Extends UnistLiteral], [Req ''value'' TString])"
| "decl Root = ([Extends Parent], [Req ''type'' (TStrLit ''root'')])"
| "decl Heading = ([Extends Parent],
     [Req ''type'' (TStrLit ''heading''),
      Req ''depth'' (TUnion [TNumLit 1, TNumLit 2, TNumLit 3, TNumLit 4, TNumLit 5, TNumLit 6]),
      Req ''children'' (TArray PhrasingContent)])"
| "decl ThematicBreak = ([Extends Node], [Req ''type'' (TStrLit ''thematicBreak'')])"
| "decl ListItem = ([Extends Parent],
     [Req ''type'' (TStrLit ''listItem''),
      Opt ''checked'' boolean_null_undefined,
      Opt ''spread'' boolean_null_undefined,
      Req ''children'' (TArray (TUnion [BlockContent, DefinitionContent]))])"
| "decl Table = ([Extends Parent],
     [Req ''type'' (TStrLit ''table''),
      Req ''children'' (TArray TableContent)])"
| "decl TableRow = ([Extends Parent],
     [Req ''type'' (TStrLit ''tableRow''),
      Req ''children'' (TArray RowContent)])"
| "decl TableCell = ([Extends Parent],
     [Req ''type'' (TStrLit ''tableCell''),
      Req ''children'' (TArray PhrasingContent)])"
| "decl HTML = ([Extends Literal], [Req ''type'' (TStrLit ''html'')])"
| "decl Definition = ([Extends Node, Extends Association, Extends Resource],
     [Req ''type'' (TStrLit ''definition'')])"
| "decl FootnoteDefinition = ([Extends Parent, Extends Association],
     [Req ''type'' (TStrLit ''footnoteDefinition''),
      Req ''children'' (TArray (TUnion [BlockContent, DefinitionContent]))])"
| "decl Text = ([Extends Literal], [Req ''type'' (TStrLit ''text'')])"
| "decl Emphasis = ([Extends Parent],
     [Req ''type'' (TStrLit ''emphasis''),
      Req ''children'' (TArray PhrasingContent)])"
| "decl Strong = ([Extends Parent],
     [Req ''type'' (TStrLit ''strong''),
      Req ''children'' (TArray PhrasingContent)])"
| "decl Delete = ([Extends Parent],
     [Req ''type'' (TStrLit ''delete''),
      Req ''children'' (TArray PhrasingContent)])"
| "decl Break = ([Extends Node], [Req ''type'' (TStrLit ''break'')])"
| "decl Link = ([Extends Parent, Extends Resource],
     [Req ''type'' (TStrLit ''link''),
      Req ''children'' (TArray StaticPhrasingContent)])"
| "decl LinkReference = ([Extends Parent, Extends Reference],
     [Req ''type'' (TStrLit ''linkReference''),
      Req ''children'' (TArray StaticPhrasingContent)])"
| "decl Footnote = ([Extends Parent],
     [Req ''type'' (TStrLit ''footnote''),
      Req ''children'' (TArray PhrasingContent)])"
| "decl FootnoteReference = ([Extends Node, Extends Association],
     [Req ''type'' (TStrLit ''footnoteReference'')])"
| "decl Resource = ([],
     [Req ''url'' TString,
      Opt ''title'' string_null_undefined])"
| "decl Association = ([],
     [Req ''identifier'' TString,
      Opt ''label'' string_null_undefined])"
| "decl Reference = ([Extends Association], [Req ''referenceType'' ReferenceType])"
| "decl Alternative = ([], [Opt ''alt'' string_null_undefined])"
| "decl Paragraph = ([Extends Parent],
     [Req ''type'' (TStrLit ''paragraph''),
      Req ''children'' (TArray PhrasingContent),
      Opt ''indent'' number_null_undefined])"
| "decl List = ([Extends Parent],
     [Req ''type'' (TStrLit ''list''),
      Opt ''ordered'' boolean_null_undefined,
      Opt ''definition'' boolean_null_undefined,
      Opt ''start'' number_null_undefined,
      Opt ''spread'' boolean_null_undefined,
      Req ''children'' (TArray ListContent)])"
| "decl Image = ([Extends Node, Extends Resource, Extends Alternative],
     [Req ''type'' (TStrLit ''image''),
      Req ''prefix'' (TUnion [TStrLit ''File'', TStrLit ''Image'']),
      Req ''name'' TString,
      Opt ''kind'' (TUnion
        [TStrLit ''thumb'',
         TStrLit ''thumbnail'',
         TTemplate [Chunk ''thumb='', AnyString],
         TTemplate [Chunk ''thumbnail='', AnyString],
         TStrLit ''frame'',
         TStrLit ''framed'',
         TStrLit ''frameless'']),
      Opt ''border'' TBoolean,
      Opt ''location'' (TUnion
        [TStrLit ''left'', TStrLit ''right'', TStrLit ''center'', TStrLit ''none'']),
      Opt ''aligntment'' (TUnion
        [TStrLit ''baseline'',
         TStrLit ''sub'',
         TStrLit ''super'',
         TStrLit ''top'',
         TStrLit ''text-top'',
         TStrLit ''middle'',
         TStrLit ''bottom'',
         TStrLit ''text-bottom'']),
      Opt ''size'' (TUnion
        [TStrLit ''upright'',
         TTemplate [Chunk ''upright='', AnyNumber],
         TTemplate [AnyNumber, Chunk ''px''],
         TTemplate [Chunk ''x'', AnyNumber, Chunk ''px''],
         TTemplate [AnyNumber, Chunk ''x'', AnyNumber, Chunk ''px'']]),
      Opt ''link'' (TRef Link),
      Opt ''alt'' TString,
      Opt ''langtag'' IETFLangTag,
      Opt ''class'' TString,
      Opt ''upright'' TNumber,
      Opt ''caption'' PhrasingContent])"
| "decl File = ([ExtendsOmit Image [''type'']],
     [Req ''type'' (TStrLit ''file''),
      Opt ''page'' TNumber,
      Opt ''thumbtime'' (TStrLit ''Time''),
      Opt ''start'' TNumber,
      Opt ''end'' TNumber])"
| "decl Signature = ([Extends Node],
     [Req ''type'' (TStrLit ''signature''),
      Req ''showName'' TBoolean,
      Req ''showTime'' TBoolean])"
| "decl Redirect = ([Extends Node],
     [Req ''type'' (TStrLit ''redirect''),
      Req ''value'' (TRef Link)])"
| "decl TOC = ([Extends Node],
     [Req ''type'' (TStrLit ''toc''),
      Opt ''forced'' boolean_null_undefined,
      Opt ''disabled'' boolean_null_undefined])"
| "decl Nowiki = ([Extends Node], [])"
| "decl References = ([Extends Node], [Req ''type'' (TStrLit ''references'')])"
| "decl Gallery = ([Extends Parent],
     [Req ''type'' (TStrLit ''gallery''),
      Req ''children'' (TArray (TRef Image)),
      Req ''attributes'' (TObject
        [Opt ''mode'' (TUnion
           [TStrLit ''traditional'',
            TStrLit ''nolines'',
            TStrLit ''packed'',
            TStrLit ''packed-overlay'',
            TStrLit ''packed-hover'',
            TStrLit ''slideshow'']),
         Opt ''caption'' TString,
         Opt ''widths'' TString,
         Opt ''heights'' TString,
         Opt ''perrow'' TNumber,
         Opt ''showfilename'' (TStrLit ''yes''),
         Opt ''class'' TString,
         Opt ''style'' TString])])"
| "decl Math = ([Extends Literal], [Req ''type'' (TStrLit ''math'')])"
| "decl SyntaxHighlighting = ([Extends Literal], [Req ''type'' (TStrLit ''syntaxHighlighting'')])"

text \<open>
  The depth of an interface in the \<^verbatim>\<open>extends\<close> hierarchy; it exists only to show that
  collecting inherited properties ends.
\<close>

fun rank :: "iname \<Rightarrow> nat" where
  "rank Node = 0"
| "rank Resource = 0"
| "rank Association = 0"
| "rank Alternative = 0"
| "rank UnistParent = 1"
| "rank UnistLiteral = 1"
| "rank Reference = 1"
| "rank Image = 1"
| "rank Parent = 2"
| "rank Literal = 2"
| "rank File = 2"
| "rank n = 3"

text \<open>
  All properties of an interface: its own, then those of what it extends that its own body
  does not declare again (a redeclared property replaces the inherited one).
\<close>

definition inherit :: "member list \<Rightarrow> member list \<Rightarrow> member list" where
  "inherit own inherited =
     own @ filter (\<lambda>p. member_name p \<notin> set (map member_name own)) inherited"

definition omit :: "string list \<Rightarrow> member list \<Rightarrow> member list" where
  "omit ks ps = filter (\<lambda>p. member_name p \<notin> set ks) ps"

function all_props :: "iname \<Rightarrow> member list" where
  "all_props n =
     inherit (snd (decl n))
       (concat (map (\<lambda>h. case h of
                        Extends m \<Rightarrow> all_props m
                      | ExtendsOmit m ks \<Rightarrow> omit ks (all_props m))
                    (fst (decl n))))"
  by pat_completeness auto
termination
  by (relation "measure rank") (auto, (case_tac n; auto)+)

declare all_props.simps [simp del]

section \<open>Template literal types\<close>

text \<open>
  A string belongs to \<^verbatim>\<open>`${number}`\<close> when it reads as a number. The decimal literals are
  modelled: an optional sign, digits with an optional fraction (or a fraction alone), and an
  optional exponent. The other spellings JavaScript converts to a finite number (hexadecimal,
  octal and binary literals, surrounding white space) are not, and no literal is refused for
  being too large a number.
\<close>

definition is_digit :: "char \<Rightarrow> bool" where
  "is_digit c = (c \<in> set ''0123456789'')"

definition digits :: "string \<Rightarrow> bool" where
  "digits s = list_all is_digit s"

definition unsigned :: "string \<Rightarrow> string" where
  "unsigned s =
     (case s of
        [] \<Rightarrow> []
      | c # r \<Rightarrow> if c = CHR ''+'' \<or> c = CHR ''-'' then r else s)"

definition is_exp_mark :: "char \<Rightarrow> bool" where
  "is_exp_mark c = (c = CHR ''e'' \<or> c = CHR ''E'')"

definition mantissa_ok :: "string \<Rightarrow> bool" where
  "mantissa_ok m =
     (let ip = takeWhile (\<lambda>c. c \<noteq> CHR ''.'') m;
          rest = dropWhile (\<lambda>c. c \<noteq> CHR ''.'') m
      in case rest of
           [] \<Rightarrow> ip \<noteq> [] \<and> digits ip
         | dot # fp \<Rightarrow> digits ip \<and> digits fp \<and> (ip \<noteq> [] \<or> fp \<noteq> []))"

definition exponent_ok :: "string \<Rightarrow> bool" where
  "exponent_ok e =
     (case e of
        [] \<Rightarrow> True
      | mark # ds \<Rightarrow> unsigned ds \<noteq> [] \<and> digits (unsigned ds))"

definition number_string :: "string \<Rightarrow> bool" where
  "number_string s =
     (let u = unsigned s
      in mantissa_ok (takeWhile (\<lambda>c. \<not> is_exp_mark c) u) \<and>
         exponent_ok (dropWhile (\<lambda>c. \<not> is_exp_mark c) u))"

text \<open>All ways of cutting a string in two.\<close>

fun splits :: "string \<Rightarrow> (string \<times> string) list" where
  "splits [] = [([], [])]"
| "splits (c # cs) = ([], c # cs) # map (\<lambda>(a, b). (c # a, b)) (splits cs)"

text \<open>
  A string matches a template when it can be cut into pieces, one per part: a chunk is
  matched by itself, \<^verbatim>\<open>${string}\<close> by any piece and \<^verbatim>\<open>${number}\<close> by a number string.
\<close>

fun tmatch :: "part list \<Rightarrow> string \<Rightarrow> bool" where
  "tmatch [] s = (s = [])"
| "tmatch (Chunk t # ps) s =
     (take (length t) s = t \<and> tmatch ps (drop (length t) s))"
| "tmatch (AnyString # ps) s =
     list_ex (\<lambda>ab. tmatch ps (snd ab)) (splits s)"
| "tmatch (AnyNumber # ps) s =
     list_ex (\<lambda>ab. number_string (fst ab) \<and> tmatch ps (snd ab)) (splits s)"

section \<open>Conformance of a value to a type\<close>

text \<open>
  TypeScript types are structural: a value has an interface type when each declared property
  is there with a value of the declared type. A required property must be present; an optional
  one may be absent or \<open>undefined\<close>. Properties the interface does not declare are not looked at.
  \<open>null\<close> and \<open>undefined\<close> belong only to the types that name them (strict null checks), and
  only objects conform to an interface or an object type.
\<close>

lemma size_map_of:
  "map_of fs k = Some x \<Longrightarrow> size x < Suc (size_list (size_prod (\<lambda>_. 0) size) fs)"
  by (induction fs) (auto split: if_splits)

lemma size_in_set:
  "x \<in> set xs \<Longrightarrow> size x < Suc (size_list size xs)"
  by (induction xs) auto

function conforms :: "ty \<Rightarrow> jv \<Rightarrow> bool" where
  "conforms TUnknown v = True"
| "conforms TString v = (case v of Str s \<Rightarrow> True | _ \<Rightarrow> False)"
| "conforms TNumber v = (case v of Num n \<Rightarrow> True | _ \<Rightarrow> False)"
| "conforms TBoolean v = (case v of Bool b \<Rightarrow> True | _ \<Rightarrow> False)"
| "conforms TNull v = (v = Null)"
| "conforms TUndefined v = (v = Undefined)"
| "conforms (TStrLit s) v = (v = Str s)"
| "conforms (TNumLit n) v = (v = Num n)"
| "conforms (TTemplate ps) v = (case v of Str s \<Rightarrow> tmatch ps s | _ \<Rightarrow> False)"
| "conforms (TArray t) v = (case v of Arr xs \<Rightarrow> list_all (conforms t) xs | _ \<Rightarrow> False)"
| "conforms (TUnion ts) v = list_ex (\<lambda>t. conforms t v) ts"
| "conforms (TRef n) v =
     (case v of
        Obj fs \<Rightarrow>
          list_all
            (\<lambda>p. case p of
                   Req k t \<Rightarrow> (case map_of fs k of None \<Rightarrow> False | Some x \<Rightarrow> conforms t x)
                 | Opt k t \<Rightarrow>
                     (case map_of fs k of
                        None \<Rightarrow> True
                      | Some x \<Rightarrow> x = Undefined \<or> conforms t x))
            (all_props n)
      | _ \<Rightarrow> False)"
| "conforms (TObject ps) v =
     (case v of
        Obj fs \<Rightarrow>
          list_all
            (\<lambda>p. case p of
                   Req k t \<Rightarrow> (case map_of fs k of None \<Rightarrow> False | Some x \<Rightarrow> conforms t x)
                 | Opt k t \<Rightarrow>
                     (case map_of fs k of
                        None \<Rightarrow> True
                      | Some x \<Rightarrow> x = Undefined \<or> conforms t x))
            ps
      | _ \<Rightarrow> False)"
  by pat_completeness auto
termination
proof (relation "measures [\<lambda>(t, v). size v, \<lambda>(t, v). size t]", goal_cases)
  case 1
  show ?case by simp
next
  case (2 t v xs x)
  then show ?case using size_in_set [of x xs] by simp
next
  case (3 ts v t)
  then show ?case using size_in_set [of t ts] by simp
next
  case (4 n v fs p k t x)
  then show ?case using size_map_of [of fs k x] by simp
next
  case (5 n v fs p k t x)
  then show ?case using size_map_of [of fs k x] by simp
next
  case (6 ps v fs p k t x)
  then show ?case using size_map_of [of fs k x] by simp
next
  case (7 ps v fs p k t x)
  then show ?case using size_map_of [of fs k x] by simp
qed

text \<open>The check \<open>conforms\<close> makes of one declared property against the properties of an object.\<close>

definition holds :: "(string \<times> jv) list \<Rightarrow> member \<Rightarrow> bool" where
  "holds fs p =
     (case p of
        Req k t \<Rightarrow> (case map_of fs k of None \<Rightarrow> False | Some x \<Rightarrow> conforms t x)
      | Opt k t \<Rightarrow>
          (case map_of fs k of None \<Rightarrow> True | Some x \<Rightarrow> x = Undefined \<or> conforms t x))"

section \<open>The discriminant an interface declares\<close>

text \<open>
  The tag of a variant: the string literal its \<open>type\<close> property is declared with. An interface
  whose \<open>type\<close> is not declared as one literal has none.
\<close>

definition declared_tag :: "iname \<Rightarrow> string option" where
  "declared_tag n =
     (case find (\<lambda>p. member_name p = ''type'') (all_props n) of
        Some (Req k (TStrLit s)) \<Rightarrow> Some s
      | _ \<Rightarrow> None)"

section \<open>Trees below a node\<close>

definition is_link :: "jv \<Rightarrow> bool" where
  "is_link v = (tag v = Some ''link'' \<or> tag v = Some ''linkReference'')"

text \<open>
  \<open>has_link v\<close>: a node tagged \<open>link\<close> or \<open>linkReference\<close> occurs in the subtree rooted at
  \<open>v\<close>, at any depth along the \<open>children\<close> sequences.
\<close>

function has_link :: "jv \<Rightarrow> bool" where
  "has_link v =
     (is_link v \<or>
      (case v of
         Obj fs \<Rightarrow>
           (case map_of fs ''children'' of
              Some (Arr cs) \<Rightarrow> list_ex has_link cs
            | _ \<Rightarrow> False)
       | _ \<Rightarrow> False))"
  by pat_completeness auto
termination
proof (relation "measure size", goal_cases)
  case 1
  show ?case by simp
next
  case (2 v fs w cs c)
  then show ?case
    using size_map_of [of fs "''children''" "Arr cs"] size_in_set [of c cs] by simp
qed

declare has_link.simps [simp del]

section \<open>Example trees\<close>

definition text_node :: "string \<Rightarrow> jv" where
  "text_node s = Obj [(''type'', Str ''text''), (''value'', Str s)]"

definition emphasis_node :: "jv list \<Rightarrow> jv" where
  "emphasis_node cs = Obj [(''type'', Str ''emphasis''), (''children'', Arr cs)]"

definition link_node :: "string \<Rightarrow> jv list \<Rightarrow> jv" where
  "link_node u cs = Obj [(''type'', Str ''link''), (''url'', Str u), (''children'', Arr cs)]"

definition link_reference_node :: "string \<Rightarrow> jv list \<Rightarrow> jv" where
  "link_reference_node i cs =
     Obj [(''type'', Str ''linkReference''),
          (''identifier'', Str i),
          (''referenceType'', Str ''full''),
          (''children'', Arr cs)]"

definition heading_node :: "jv \<Rightarrow> jv list \<Rightarrow> jv" where
  "heading_node d cs = Obj [(''type'', Str ''heading''), (''depth'', d), (''children'', Arr cs)]"

text \<open>An image or file embed with the required properties and further ones.\<close>

definition image_node :: "(string \<times> jv) list \<Rightarrow> jv" where
  "image_node more =
     Obj ([(''type'', Str ''image''),
           (''prefix'', Str ''Image''),
           (''name'', Str ''My Image.png''),
           (''url'', Str ''My Image.png'')] @ more)"

definition file_node :: "(string \<times> jv) list \<Rightarrow> jv" where
  "file_node more =
     Obj ([(''type'', Str ''file''),
           (''prefix'', Str ''File''),
           (''name'', Str ''My Image.png''),
           (''url'', Str ''My Image.png'')] @ more)"

definition gallery_node :: "jv list \<Rightarrow> jv" where
  "gallery_node cs =
     Obj [(''type'', Str ''gallery''), (''children'', Arr cs), (''attributes'', Obj [])]"

definition table_node :: "jv list \<Rightarrow> jv" where
  "table_node rows = Obj [(''type'', Str ''table''), (''children'', Arr rows)]"

definition table_row_node :: "jv list \<Rightarrow> jv" where
  "table_row_node cells = Obj [(''type'', Str ''tableRow''), (''children'', Arr cells)]"

definition table_cell_node :: "jv list \<Rightarrow> jv" where
  "table_cell_node cs = Obj [(''type'', Str ''tableCell''), (''children'', Arr cs)]"

definition paragraph_node :: "jv list \<Rightarrow> jv" where
  "paragraph_node cs = Obj [(''type'', Str ''paragraph''), (''children'', Arr cs)]"

definition definition_node :: "string \<Rightarrow> string \<Rightarrow> jv" where
  "definition_node i u =
     Obj [(''type'', Str ''definition''), (''identifier'', Str i), (''url'', Str u)]"

definition footnote_definition_node :: "string \<Rightarrow> jv list \<Rightarrow> jv" where
  "footnote_definition_node i cs =
     Obj [(''type'', Str ''footnoteDefinition''), (''identifier'', Str i), (''children'', Arr cs)]"

definition redirect_node :: "jv \<Rightarrow> jv" where
  "redirect_node l = Obj [(''type'', Str ''redirect''), (''value'', l)]"

text \<open>
  The same properties under another tag: the value of \<open>type\<close> is replaced, everything else
  is kept as it is.
\<close>

definition retag :: "string \<Rightarrow> (string \<times> jv) list \<Rightarrow> (string \<times> jv) list" where
  "retag s fs = map (\<lambda>e. if fst e = ''type'' then (''type'', Str s) else e) fs"

section \<open>The properties of each interface, inherited ones included\<close>

named_theorems props \<open>the flattened property list of an interface\<close>

lemma props_Node [props]:
  "all_props Node = [Req ''type'' TString]"
  by (simp add: all_props.simps [of Node] inherit_def)

lemma props_UnistParent [props]:
  "all_props UnistParent = [Req ''children'' (TArray (TRef Node)), Req ''type'' TString]"
  by (simp add: all_props.simps [of UnistParent] inherit_def props_Node)

lemma props_UnistLiteral [props]:
  "all_props UnistLiteral = [Req ''value'' TUnknown, Req ''type'' TString]"
  by (simp add: all_props.simps [of UnistLiteral] inherit_def props_Node)

lemma props_Parent [props]:
  "all_props Parent = [Req ''children'' (TArray Content), Req ''type'' TString]"
  by (simp add: all_props.simps [of Parent] inherit_def props_UnistParent)

lemma props_Literal [props]:
  "all_props Literal = [Req ''value'' TString, Req ''type'' TString]"
  by (simp add: all_props.simps [of Literal] inherit_def props_UnistLiteral)

lemma props_Resource [props]:
  "all_props Resource = [Req ''url'' TString, Opt ''title'' string_null_undefined]"
  by (simp add: all_props.simps [of Resource] inherit_def)

lemma props_Association [props]:
  "all_props Association = [Req ''identifier'' TString, Opt ''label'' string_null_undefined]"
  by (simp add: all_props.simps [of Association] inherit_def)

lemma props_Reference [props]:
  "all_props Reference =
     [Req ''referenceType'' ReferenceType,
      Req ''identifier'' TString,
      Opt ''label'' string_null_undefined]"
  by (simp add: all_props.simps [of Reference] inherit_def props_Association)

lemma props_Alternative [props]:
  "all_props Alternative = [Opt ''alt'' string_null_undefined]"
  by (simp add: all_props.simps [of Alternative] inherit_def)

lemma props_Root [props]:
  "all_props Root = [Req ''type'' (TStrLit ''root''), Req ''children'' (TArray Content)]"
  by (simp add: all_props.simps [of Root] inherit_def props_Parent)

lemma props_Heading [props]:
  "all_props Heading =
     [Req ''type'' (TStrLit ''heading''),
      Req ''depth'' (TUnion [TNumLit 1, TNumLit 2, TNumLit 3, TNumLit 4, TNumLit 5, TNumLit 6]),
      Req ''children'' (TArray PhrasingContent)]"
  by (simp add: all_props.simps [of Heading] inherit_def props_Parent)

lemma props_ThematicBreak [props]:
  "all_props ThematicBreak = [Req ''type'' (TStrLit ''thematicBreak'')]"
  by (simp add: all_props.simps [of ThematicBreak] inherit_def props_Node)

lemma props_ListItem [props]:
  "all_props ListItem =
     [Req ''type'' (TStrLit ''listItem''),
      Opt ''checked'' boolean_null_undefined,
      Opt ''spread'' boolean_null_undefined,
      Req ''children'' (TArray (TUnion [BlockContent, DefinitionContent]))]"
  by (simp add: all_props.simps [of ListItem] inherit_def props_Parent)

lemma props_Table [props]:
  "all_props Table = [Req ''type'' (TStrLit ''table''), Req ''children'' (TArray TableContent)]"
  by (simp add: all_props.simps [of Table] inherit_def props_Parent)

lemma props_TableRow [props]:
  "all_props TableRow = [Req ''type'' (TStrLit ''tableRow''), Req ''children'' (TArray RowContent)]"
  by (simp add: all_props.simps [of TableRow] inherit_def props_Parent)

lemma props_TableCell [props]:
  "all_props TableCell =
     [Req ''type'' (TStrLit ''tableCell''), Req ''children'' (TArray PhrasingContent)]"
  by (simp add: all_props.simps [of TableCell] inherit_def props_Parent)

lemma props_HTML [props]:
  "all_props HTML = [Req ''type'' (TStrLit ''html''), Req ''value'' TString]"
  by (simp add: all_props.simps [of HTML] inherit_def props_Literal)

lemma props_Definition [props]:
  "all_props Definition =
     [Req ''type'' (TStrLit ''definition''),
      Req ''identifier'' TString,
      Opt ''label'' string_null_undefined,
      Req ''url'' TString,
      Opt ''title'' string_null_undefined]"
  by (simp add: all_props.simps [of Definition] inherit_def props_Node props_Association
      props_Resource)

lemma props_FootnoteDefinition [props]:
  "all_props FootnoteDefinition =
     [Req ''type'' (TStrLit ''footnoteDefinition''),
      Req ''children'' (TArray (TUnion [BlockContent, DefinitionContent])),
      Req ''identifier'' TString,
      Opt ''label'' string_null_undefined]"
  by (simp add: all_props.simps [of FootnoteDefinition] inherit_def props_Parent
      props_Association)

lemma props_Text [props]:
  "all_props Text = [Req ''type'' (TStrLit ''text''), Req ''value'' TString]"
  by (simp add: all_props.simps [of Text] inherit_def props_Literal)

lemma props_Emphasis [props]:
  "all_props Emphasis =
     [Req ''type'' (TStrLit ''emphasis''), Req ''children'' (TArray PhrasingContent)]"
  by (simp add: all_props.simps [of Emphasis] inherit_def props_Parent)

lemma props_Strong [props]:
  "all_props Strong =
     [Req ''type'' (TStrLit ''strong''), Req ''children'' (TArray PhrasingContent)]"
  by (simp add: all_props.simps [of Strong] inherit_def props_Parent)

lemma props_Delete [props]:
  "all_props Delete =
     [Req ''type'' (TStrLit ''delete''), Req ''children'' (TArray PhrasingContent)]"
  by (simp add: all_props.simps [of Delete] inherit_def props_Parent)

lemma props_Break [props]:
  "all_props Break = [Req ''type'' (TStrLit ''break'')]"
  by (simp add: all_props.simps [of Break] inherit_def props_Node)

lemma props_Link [props]:
  "all_props Link =
     [Req ''type'' (TStrLit ''link''),
      Req ''children'' (TArray StaticPhrasingContent),
      Req ''url'' TString,
      Opt ''title'' string_null_undefined]"
  by (simp add: all_props.simps [of Link] inherit_def props_Parent props_Resource)

lemma props_LinkReference [props]:
  "all_props LinkReference =
     [Req ''type'' (TStrLit ''linkReference''),
      Req ''children'' (TArray StaticPhrasingContent),
      Req ''referenceType'' ReferenceType,
      Req ''identifier'' TString,
      Opt ''label'' string_null_undefined]"
  by (simp add: all_props.simps [of LinkReference] inherit_def props_Parent props_Reference)

lemma props_Footnote [props]:
  "all_props Footnote =
     [Req ''type'' (TStrLit ''footnote''), Req ''children'' (TArray PhrasingContent)]"
  by (simp add: all_props.simps [of Footnote] inherit_def props_Parent)

lemma props_FootnoteReference [props]:
  "all_props FootnoteReference =
     [Req ''type'' (TStrLit ''footnoteReference''),
      Req ''identifier'' TString,
      Opt ''label'' string_null_undefined]"
  by (simp add: all_props.simps [of FootnoteReference] inherit_def props_Node
      props_Association)

lemma props_Paragraph [props]:
  "all_props Paragraph =
     [Req ''type'' (TStrLit ''paragraph''),
      Req ''children'' (TArray PhrasingContent),
      Opt ''indent'' number_null_undefined]"
  by (simp add: all_props.simps [of Paragraph] inherit_def props_Parent)

lemma props_List [props]:
  "all_props List =
     [Req ''type'' (TStrLit ''list''),
      Opt ''ordered'' boolean_null_undefined,
      Opt ''definition'' boolean_null_undefined,
      Opt ''start'' number_null_undefined,
      Opt ''spread'' boolean_null_undefined,
      Req ''children'' (TArray ListContent)]"
  by (simp add: all_props.simps [of List] inherit_def props_Parent)

text \<open>
  \<open>Image\<close> declares \<open>type\<close> and \<open>alt\<close> itself, so of what it extends only the two properties
  of \<open>Resource\<close> are added to its own.
\<close>

lemma props_Image [props]:
  "all_props Image =
     snd (decl Image) @ [Req ''url'' TString, Opt ''title'' string_null_undefined]"
  by (simp add: all_props.simps [of Image] inherit_def props_Node props_Resource
      props_Alternative)

lemma props_File [props]:
  "all_props File = snd (decl File) @ omit [''type''] (all_props Image)"
  by (simp add: all_props.simps [of File] inherit_def omit_def props_Image)

lemma props_Signature [props]:
  "all_props Signature =
     [Req ''type'' (TStrLit ''signature''), Req ''showName'' TBoolean, Req ''showTime'' TBoolean]"
  by (simp add: all_props.simps [of Signature] inherit_def props_Node)

lemma props_Redirect [props]:
  "all_props Redirect = [Req ''type'' (TStrLit ''redirect''), Req ''value'' (TRef Link)]"
  by (simp add: all_props.simps [of Redirect] inherit_def props_Node)

lemma props_TOC [props]:
  "all_props TOC =
     [Req ''type'' (TStrLit ''toc''),
      Opt ''forced'' boolean_null_undefined,
      Opt ''disabled'' boolean_null_undefined]"
  by (simp add: all_props.simps [of TOC] inherit_def props_Node)

lemma props_Nowiki [props]:
  "all_props Nowiki = [Req ''type'' TString]"
  by (simp add: all_props.simps [of Nowiki] inherit_def props_Node)

lemma props_References [props]:
  "all_props References = [Req ''type'' (TStrLit ''references'')]"
  by (simp add: all_props.simps [of References] inherit_def props_Node)

lemma props_Gallery [props]:
  "all_props Gallery = snd (decl Gallery)"
  by (simp add: all_props.simps [of Gallery] inherit_def props_Parent)

lemma props_Math [props]:
  "all_props Math = [Req ''type'' (TStrLit ''math''), Req ''value'' TString]"
  by (simp add: all_props.simps [of Math] inherit_def props_Literal)

lemma props_SyntaxHighlighting [props]:
  "all_props SyntaxHighlighting =
     [Req ''type'' (TStrLit ''syntaxHighlighting''), Req ''value'' TString]"
  by (simp add: all_props.simps [of SyntaxHighlighting] inherit_def props_Literal)

text \<open>The category unions, unfolded to the interfaces they register.\<close>

lemmas categories =
  indexed_def BlockContent_def DefinitionContent_def ListContent_def TableContent_def
  RowContent_def PhrasingContent_def StaticPhrasingContent_def TopLevelContent_def Content_def
  BlockContentMap_def DefinitionContentMap_def StaticPhrasingContentMap_def
  PhrasingContentMap_def ListContentMap_def TableContentMap_def RowContentMap_def

lemmas scalars =
  string_null_undefined_def boolean_null_undefined_def number_null_undefined_def
  ReferenceType_def IETFLangTag_def

section \<open>What conformance to an interface gives\<close>

lemma conforms_Ref_Obj:
  "conforms (TRef n) v \<Longrightarrow> \<exists>fs. v = Obj fs"
  by (cases v) simp_all

lemma conforms_Req:
  assumes "conforms (TRef n) v" and "Req k t \<in> set (all_props n)"
  shows "\<exists>x. prop_of v k = Some x \<and> conforms t x"
proof -
  from assms(1) obtain fs where v: "v = Obj fs"
    using conforms_Ref_Obj by blast
  with assms have "case map_of fs k of None \<Rightarrow> False | Some x \<Rightarrow> conforms t x"
    by (auto simp: list_all_iff)
  then show ?thesis
    by (simp add: v prop_of_def split: option.splits)
qed

lemma conforms_Opt:
  assumes "conforms (TRef n) v" and "Opt k t \<in> set (all_props n)"
    and "prop_of v k = Some x" and "x \<noteq> Undefined"
  shows "conforms t x"
proof -
  from assms(1) obtain fs where v: "v = Obj fs"
    using conforms_Ref_Obj by blast
  with assms(1,2) have
    "case map_of fs k of None \<Rightarrow> True | Some x \<Rightarrow> x = Undefined \<or> conforms t x"
    by (auto simp: list_all_iff)
  with assms(3,4) show ?thesis
    by (simp add: v prop_of_def)
qed

lemma conforms_Array:
  "conforms (TArray t) v \<Longrightarrow> \<exists>xs. v = Arr xs \<and> list_all (conforms t) xs"
  by (cases v) simp_all

lemma conforms_indexed:
  "conforms (indexed m) v = list_ex (\<lambda>e. conforms (TRef (snd e)) v) m"
  by (simp add: indexed_def list_ex_iff)

lemma conforms_children:
  assumes "conforms (TRef n) v" and "Req ''children'' (TArray t) \<in> set (all_props n)"
  shows "list_all (conforms t) (children v)"
proof -
  from conforms_Req [OF assms] obtain x
    where x: "prop_of v ''children'' = Some x" "conforms (TArray t) x"
    by blast
  from conforms_Array [OF x(2)] obtain xs where "x = Arr xs" "list_all (conforms t) xs"
    by blast
  with x(1) show ?thesis
    by (simp add: children_def)
qed

lemma conforms_tag:
  assumes "conforms (TRef n) v" and "Req ''type'' (TStrLit s) \<in> set (all_props n)"
  shows "tag v = Some s"
proof -
  from conforms_Req [OF assms] obtain x
    where "prop_of v ''type'' = Some x" "conforms (TStrLit s) x"
    by blast
  then show ?thesis
    by (simp add: tag_def)
qed

lemma find_in_set:
  "find P xs = Some x \<Longrightarrow> x \<in> set xs \<and> P x"
  by (induction xs) (auto split: if_splits)

lemma declared_tag_member:
  assumes "declared_tag n = Some s"
  shows "Req ''type'' (TStrLit s) \<in> set (all_props n)"
proof -
  from assms obtain k
    where "find (\<lambda>p. member_name p = ''type'') (all_props n) = Some (Req k (TStrLit s))"
    by (auto simp: declared_tag_def split: option.splits member.splits ty.splits)
  from find_in_set [OF this] show ?thesis
    by auto
qed

lemma conforms_declared_tag:
  "conforms (TRef n) v \<Longrightarrow> declared_tag n = Some s \<Longrightarrow> tag v = Some s"
  using conforms_tag declared_tag_member by blast

section \<open>The tags of the registered variants\<close>

lemma block_tags:
  "map (\<lambda>e. (fst e, declared_tag (snd e))) BlockContentMap =
     [(''paragraph'', Some ''paragraph''),
      (''heading'', Some ''heading''),
      (''thematicbreak'', Some ''thematicBreak''),
      (''list'', Some ''list''),
      (''table'', Some ''table''),
      (''html'', Some ''html''),
      (''signature'', Some ''signature''),
      (''redirect'', Some ''redirect''),
      (''toc'', Some ''toc''),
      (''nowiki'', None),
      (''references'', Some ''references''),
      (''gallery'', Some ''gallery''),
      (''math'', Some ''math''),
      (''syntaxHighlighting'', Some ''syntaxHighlighting'')]"
  by (simp add: BlockContentMap_def declared_tag_def props)

lemma static_tags:
  "map (\<lambda>e. (fst e, declared_tag (snd e))) StaticPhrasingContentMap =
     [(''text'', Some ''text''),
      (''emphasis'', Some ''emphasis''),
      (''strong'', Some ''strong''),
      (''html'', Some ''html''),
      (''break'', Some ''break''),
      (''footnote'', Some ''footnote''),
      (''footnotereference'', Some ''footnoteReference''),
      (''nowiki'', None),
      (''references'', Some ''references''),
      (''gallery'', Some ''gallery''),
      (''math'', Some ''math''),
      (''syntaxhighlighting'', Some ''syntaxHighlighting'')]"
  by (simp add: StaticPhrasingContentMap_def declared_tag_def props)

text \<open>
  A node that conforms to a static phrasing variant with a declared tag is not tagged
  \<open>link\<close> or \<open>linkReference\<close>.
\<close>

lemma static_variant_not_link:
  assumes "e \<in> set StaticPhrasingContentMap" and "snd e \<noteq> Nowiki"
    and "conforms (TRef (snd e)) c"
  shows "\<not> is_link c"
proof -
  from assms(1,2) obtain s
    where "declared_tag (snd e) = Some s" "s \<noteq> ''link''" "s \<noteq> ''linkReference''"
    by (auto simp: StaticPhrasingContentMap_def declared_tag_def props)
  with assms(3) show ?thesis
    using conforms_declared_tag [of "snd e" c s] by (simp add: is_link_def)
qed

section \<open>Links below links\<close>

text \<open>
  Claim C1, as the specification states it: in a tree whose nodes conform to their variants,
  no \<open>link\<close> or \<open>linkReference\<close> node occurs at any depth below a child of a \<open>link\<close> or
  \<open>linkReference\<close> node. The schema does not give this: \<open>emphasis\<close> is static phrasing content
  and its own children are general phrasing content, so the tree link > emphasis > link > text
  conforms to \<open>Link\<close> although a link occurs below the outer link's child.
\<close>

theorem link_below_link_counterexample:
  "conforms (TRef Link)
     (link_node ''a'' [emphasis_node [link_node ''b'' [text_node ''x'']]]) \<and>
   list_ex has_link
     (children (link_node ''a'' [emphasis_node [link_node ''b'' [text_node ''x'']]]))"
  by (simp add: link_node_def emphasis_node_def text_node_def props categories scalars
      children_def prop_of_def has_link.simps is_link_def tag_def)

text \<open>
  Claim C1, amended: what the narrower category gives is a restriction on the immediate
  children. Every child of a \<open>link\<close> or \<open>linkReference\<close> node conforms to static phrasing
  content; \<open>Link\<close> and \<open>LinkReference\<close> are not registered there; and a child that conforms to
  a static phrasing variant with a declared tag is not tagged \<open>link\<close> or \<open>linkReference\<close>.
  Nothing is said about deeper descendants.
\<close>

theorem link_children_static:
  assumes "conforms (TRef Link) v \<or> conforms (TRef LinkReference) v"
  shows "list_all (conforms StaticPhrasingContent) (children v) \<and>
         Link \<notin> snd ` set StaticPhrasingContentMap \<and>
         LinkReference \<notin> snd ` set StaticPhrasingContentMap \<and>
         (\<forall>c \<in> set (children v). \<forall>e \<in> set StaticPhrasingContentMap.
            snd e \<noteq> Nowiki \<longrightarrow> conforms (TRef (snd e)) c \<longrightarrow> \<not> is_link c)"
proof -
  have "list_all (conforms StaticPhrasingContent) (children v)"
    using assms conforms_children [of Link v StaticPhrasingContent]
      conforms_children [of LinkReference v StaticPhrasingContent]
    by (auto simp: props)
  moreover have "Link \<notin> snd ` set StaticPhrasingContentMap"
    and "LinkReference \<notin> snd ` set StaticPhrasingContentMap"
    by (simp_all add: StaticPhrasingContentMap_def)
  ultimately show ?thesis
    using static_variant_not_link by blast
qed

theorem link_children_static_witness:
  "conforms (TRef Link) (link_node ''a'' [emphasis_node [text_node ''x'']]) \<and>
   list_all (conforms StaticPhrasingContent) [emphasis_node [text_node ''x'']] \<and>
   \<not> is_link (emphasis_node [text_node ''x'']) \<and>
   conforms (TRef LinkReference) (link_reference_node ''r'' [text_node ''x'']) \<and>
   list_all (conforms StaticPhrasingContent) [text_node ''x'']"
proof -
  have c: "conforms (TRef Link) (link_node ''a'' [emphasis_node [text_node ''x'']])"
    by (simp add: link_node_def emphasis_node_def text_node_def props categories scalars)
  have k: "children (link_node ''a'' [emphasis_node [text_node ''x'']]) =
      [emphasis_node [text_node ''x'']]"
    by (simp add: children_def prop_of_def link_node_def)
  have e: "conforms (TRef Emphasis) (emphasis_node [text_node ''x''])"
    by (simp add: emphasis_node_def text_node_def props categories scalars)
  have m: "(''emphasis'', Emphasis) \<in> set StaticPhrasingContentMap"
    by (simp add: StaticPhrasingContentMap_def)
  have r: "conforms (TRef LinkReference) (link_reference_node ''r'' [text_node ''x''])"
    by (simp add: link_reference_node_def text_node_def props categories scalars)
  have kr: "children (link_reference_node ''r'' [text_node ''x'']) = [text_node ''x'']"
    by (simp add: children_def prop_of_def link_reference_node_def)
  from link_children_static [of "link_node ''a'' [emphasis_node [text_node ''x'']]"] c k e m
  have "list_all (conforms StaticPhrasingContent) [emphasis_node [text_node ''x'']] \<and>
      \<not> is_link (emphasis_node [text_node ''x''])"
    by fastforce
  moreover from link_children_static [of "link_reference_node ''r'' [text_node ''x'']"] r kr
  have "list_all (conforms StaticPhrasingContent) [text_node ''x'']"
    by simp
  ultimately show ?thesis
    using c r by blast
qed

section \<open>The discriminant tag\<close>

lemma conforms_type_string:
  assumes "conforms (TRef n) v" and "Req ''type'' TString \<in> set (all_props n)"
  shows "\<exists>s. tag v = Some s"
proof -
  from conforms_Req [OF assms] obtain x
    where "prop_of v ''type'' = Some x" "conforms TString x"
    by blast
  then show ?thesis
    by (cases x) (simp_all add: tag_def)
qed

text \<open>Whatever conforms to a registered interface has a \<open>type\<close> property holding a string.\<close>

lemma registered_carries_type:
  assumes "e \<in> set (BlockContentMap @ DefinitionContentMap @ PhrasingContentMap @
             ListContentMap @ TableContentMap @ RowContentMap)"
    and "conforms (TRef (snd e)) v"
  shows "\<exists>s. tag v = Some s"
proof (cases "snd e = Nowiki")
  case True
  with assms(2) show ?thesis
    using conforms_type_string [of Nowiki v] by (simp add: props)
next
  case False
  with assms(1) obtain s where "declared_tag (snd e) = Some s"
    by (auto simp: categories declared_tag_def props)
  with assms(2) show ?thesis
    using conforms_declared_tag by blast
qed

text \<open>
  Claim C2: every registered node kind, \<open>nowiki\<close> included, carries a \<open>type\<close> property holding
  its node-kind name. Every other registered interface declares \<open>type\<close> as one string literal
  (\<open>block_tags\<close>, \<open>static_tags\<close>); \<open>Nowiki\<close> has an empty body, so its \<open>type\<close> is the plain
  \<open>string\<close> it inherits from \<open>Node\<close>, and an object tagged with any string at all conforms to
  it, and through it to block content and to static phrasing content.
\<close>

theorem nowiki_declares_no_tag:
  "declared_tag Nowiki = None \<and>
   declared_tag References = Some ''references'' \<and>
   conforms (TRef Nowiki) (Obj [(''type'', Str ''banana'')]) \<and>
   conforms BlockContent (Obj [(''type'', Str ''banana'')]) \<and>
   conforms StaticPhrasingContent (Obj [(''type'', Str ''banana'')]) \<and>
   tag (Obj [(''type'', Str ''banana'')]) = Some ''banana''"
  by (simp add: declared_tag_def props categories tag_def prop_of_def)

section \<open>Enumerated attributes of images and files\<close>

lemma image_size_examples:
  "conforms (TRef Image) (image_node [(''size'', Str ''upright=0.6'')]) \<and>
   \<not> conforms (TRef Image) (image_node [(''size'', Str ''wide'')]) \<and>
   conforms (TRef Image) (image_node [(''size'', Str ''10x20px'')])"
  by (simp add: image_node_def props categories scalars number_string_def unsigned_def
      mantissa_ok_def exponent_ok_def digits_def is_digit_def is_exp_mark_def)

text \<open>What an image may hold under \<open>location\<close> and under \<open>aligntment\<close>.\<close>

lemma image_location_forms:
  assumes "conforms (TRef Image) v" and "prop_of v ''location'' = Some x"
  shows "x \<in> {Undefined, Str ''left'', Str ''right'', Str ''center'', Str ''none''}"
proof (cases "x = Undefined")
  case False
  from conforms_Opt [OF assms(1) _ assms(2) False,
      of "TUnion [TStrLit ''left'', TStrLit ''right'', TStrLit ''center'', TStrLit ''none'']"]
  show ?thesis
    by (auto simp: props)
qed simp

lemma image_aligntment_forms:
  assumes "conforms (TRef Image) v" and "prop_of v ''aligntment'' = Some x"
  shows "x \<in> {Undefined, Str ''baseline'', Str ''sub'', Str ''super'', Str ''top'',
               Str ''text-top'', Str ''middle'', Str ''bottom'', Str ''text-bottom''}"
proof (cases "x = Undefined")
  case False
  from conforms_Opt [OF assms(1) _ assms(2) False,
      of "TUnion [TStrLit ''baseline'', TStrLit ''sub'', TStrLit ''super'', TStrLit ''top'',
                  TStrLit ''text-top'', TStrLit ''middle'', TStrLit ''bottom'',
                  TStrLit ''text-bottom'']"]
  show ?thesis
    by (auto simp: props)
qed simp

text \<open>
  Claim C3: \<open>kind\<close>, \<open>location\<close>, \<open>alignment\<close> and \<open>size\<close> of an image or file accept only their
  declared forms. The interface spells the third property \<open>aligntment\<close>: that name is checked
  against the eight literals, and a property named \<open>alignment\<close> is not declared at all, so an
  image whose \<open>alignment\<close> is \<open>diagonal\<close> conforms.
\<close>

theorem image_alignment_unchecked:
  "conforms (TRef Image) (image_node [(''alignment'', Str ''diagonal'')]) \<and>
   conforms (TRef File) (file_node [(''alignment'', Str ''diagonal'')]) \<and>
   ''alignment'' \<notin> set (map member_name (all_props Image)) \<and>
   ''alignment'' \<notin> set (map member_name (all_props File)) \<and>
   \<not> conforms (TRef Image) (image_node [(''aligntment'', Str ''diagonal'')]) \<and>
   conforms (TRef Image) (image_node [(''aligntment'', Str ''top'')])"
  by (simp add: image_node_def file_node_def props omit_def categories scalars)

section \<open>Heading depth\<close>

text \<open>
  Claim C4: the \<open>depth\<close> of a heading is one of the integers 1 to 6. Whatever conforms to
  \<open>Heading\<close> has such a depth, and a heading node conforms exactly when its depth is one of
  the six and its children are phrasing content; so depths 0 and 7 are refused.
\<close>

theorem heading_depth_range:
  "(conforms (TRef Heading) v \<longrightarrow>
      prop_of v ''depth'' \<in> Some ` {Num 1, Num 2, Num 3, Num 4, Num 5, Num 6}) \<and>
   (conforms (TRef Heading) (heading_node d cs) \<longleftrightarrow>
      d \<in> {Num 1, Num 2, Num 3, Num 4, Num 5, Num 6} \<and>
      list_all (conforms PhrasingContent) cs)"
proof -
  have "prop_of v ''depth'' \<in> Some ` {Num 1, Num 2, Num 3, Num 4, Num 5, Num 6}"
    if "conforms (TRef Heading) v"
    using conforms_Req [OF that, of "''depth''"
        "TUnion [TNumLit 1, TNumLit 2, TNumLit 3, TNumLit 4, TNumLit 5, TNumLit 6]"]
    by (auto simp: props)
  moreover have "conforms (TRef Heading) (heading_node d cs) \<longleftrightarrow>
      d \<in> {Num 1, Num 2, Num 3, Num 4, Num 5, Num 6} \<and>
      list_all (conforms PhrasingContent) cs"
    by (auto simp: heading_node_def props)
  ultimately show ?thesis by blast
qed

theorem heading_depth_range_witness:
  "conforms (TRef Heading) (heading_node (Num 1) []) \<and>
   conforms (TRef Heading) (heading_node (Num 2) []) \<and>
   conforms (TRef Heading) (heading_node (Num 3) []) \<and>
   conforms (TRef Heading) (heading_node (Num 4) []) \<and>
   conforms (TRef Heading) (heading_node (Num 5) []) \<and>
   conforms (TRef Heading) (heading_node (Num 6) [text_node ''Title'']) \<and>
   \<not> conforms (TRef Heading) (heading_node (Num 0) []) \<and>
   \<not> conforms (TRef Heading) (heading_node (Num 7) []) \<and>
   prop_of (heading_node (Num 6) [text_node ''Title'']) ''depth'' = Some (Num 6)"
proof -
  have t: "list_all (conforms PhrasingContent) [text_node ''Title'']"
    by (simp add: text_node_def props categories)
  have p: "prop_of (heading_node (Num 6) [text_node ''Title'']) ''depth'' = Some (Num 6)"
    by (simp add: heading_node_def prop_of_def)
  show ?thesis
    using heading_depth_range [of "heading_node (Num 0) []" "Num 1" "[]"]
      heading_depth_range [of "heading_node (Num 0) []" "Num 2" "[]"]
      heading_depth_range [of "heading_node (Num 0) []" "Num 3" "[]"]
      heading_depth_range [of "heading_node (Num 0) []" "Num 4" "[]"]
      heading_depth_range [of "heading_node (Num 0) []" "Num 5" "[]"]
      heading_depth_range [of "heading_node (Num 0) []" "Num 6" "[text_node ''Title'']"]
      heading_depth_range [of "heading_node (Num 0) []" "Num 0" "[]"]
      heading_depth_range [of "heading_node (Num 0) []" "Num 7" "[]"]
      t p
    by simp
qed

section \<open>Gallery children\<close>

lemma file_not_image:
  "conforms (TRef File) c \<Longrightarrow> \<not> conforms (TRef Image) c"
proof
  assume f: "conforms (TRef File) c" and i: "conforms (TRef Image) c"
  have "declared_tag File = Some ''file''" "declared_tag Image = Some ''image''"
    by (simp_all add: declared_tag_def props)
  with f i have "tag c = Some ''file''" "tag c = Some ''image''"
    using conforms_declared_tag by blast+
  then show False by simp
qed

text \<open>
  Claim C5: every child of a gallery is an image node, and a file node is not a legal gallery
  child. A child of a conforming gallery conforms to \<open>Image\<close>, is tagged \<open>image\<close> and does not
  conform to \<open>File\<close>; a file node is tagged \<open>file\<close> and never conforms to \<open>Image\<close>; and a
  gallery node conforms exactly when each of its children conforms to \<open>Image\<close>, so in a gallery
  of one image and one file it is the file child that breaks the constraint.
\<close>

theorem gallery_children_images:
  "(conforms (TRef Gallery) g \<longrightarrow>
      (\<forall>c \<in> set (children g).
         conforms (TRef Image) c \<and> tag c = Some ''image'' \<and> \<not> conforms (TRef File) c)) \<and>
   (conforms (TRef File) f \<longrightarrow> tag f = Some ''file'' \<and> \<not> conforms (TRef Image) f) \<and>
   (conforms (TRef Gallery) (gallery_node cs) \<longleftrightarrow> list_all (conforms (TRef Image)) cs)"
proof -
  have tags: "declared_tag File = Some ''file''" "declared_tag Image = Some ''image''"
    by (simp_all add: declared_tag_def props)
  have "conforms (TRef Image) c \<and> tag c = Some ''image'' \<and> \<not> conforms (TRef File) c"
    if g: "conforms (TRef Gallery) g" and c: "c \<in> set (children g)" for c
  proof -
    from conforms_children [OF g, of "TRef Image"] c have "conforms (TRef Image) c"
      by (simp add: props list_all_iff)
    then show ?thesis
      using file_not_image [of c] conforms_declared_tag [of Image c] tags by blast
  qed
  moreover have "tag f = Some ''file'' \<and> \<not> conforms (TRef Image) f"
    if "conforms (TRef File) f"
    using that file_not_image [of f] conforms_declared_tag [of File f] tags by blast
  moreover have
    "conforms (TRef Gallery) (gallery_node cs) \<longleftrightarrow> list_all (conforms (TRef Image)) cs"
    by (simp add: gallery_node_def props)
  ultimately show ?thesis by blast
qed

theorem gallery_children_images_witness:
  "conforms (TRef Image) (image_node []) \<and>
   conforms (TRef File) (file_node []) \<and>
   \<not> conforms (TRef Image) (file_node []) \<and>
   map (conforms (TRef Image)) [image_node [], file_node []] = [True, False] \<and>
   \<not> conforms (TRef Gallery) (gallery_node [image_node [], file_node []]) \<and>
   conforms (TRef Gallery) (gallery_node [image_node []])"
proof -
  have i: "conforms (TRef Image) (image_node [])"
    by (simp add: image_node_def props categories scalars)
  have f: "conforms (TRef File) (file_node [])"
    by (simp add: file_node_def props omit_def categories scalars)
  show ?thesis
    using i f
      gallery_children_images [of "gallery_node []" "file_node []" "[image_node [], file_node []]"]
      gallery_children_images [of "gallery_node []" "file_node []" "[image_node []]"]
    by simp
qed

section \<open>Tables, rows and cells\<close>

text \<open>
  Claim C6: tables nest in three strict levels. Table content registers \<open>TableRow\<close> alone and
  row content \<open>TableCell\<close> alone; every child of a conforming table is a conforming row tagged
  \<open>tableRow\<close>, every child of a conforming row is a conforming cell tagged \<open>tableCell\<close>, and a
  table (row) node conforms exactly when all of its children are rows (cells).
\<close>

theorem table_three_levels:
  "map snd TableContentMap = [TableRow] \<and>
   map snd RowContentMap = [TableCell] \<and>
   (conforms (TRef Table) t \<longrightarrow>
      (\<forall>r \<in> set (children t). conforms (TRef TableRow) r \<and> tag r = Some ''tableRow'')) \<and>
   (conforms (TRef TableRow) r \<longrightarrow>
      (\<forall>c \<in> set (children r). conforms (TRef TableCell) c \<and> tag c = Some ''tableCell'')) \<and>
   (conforms (TRef Table) (table_node rows) \<longleftrightarrow> list_all (conforms (TRef TableRow)) rows) \<and>
   (conforms (TRef TableRow) (table_row_node cells) \<longleftrightarrow>
      list_all (conforms (TRef TableCell)) cells)"
proof -
  have tags: "declared_tag TableRow = Some ''tableRow''" "declared_tag TableCell = Some ''tableCell''"
    by (simp_all add: declared_tag_def props)
  have "conforms (TRef TableRow) x \<and> tag x = Some ''tableRow''"
    if t: "conforms (TRef Table) t" and x: "x \<in> set (children t)" for x
  proof -
    from conforms_children [OF t, of TableContent] x have "conforms TableContent x"
      by (simp add: props list_all_iff)
    then have "conforms (TRef TableRow) x"
      by (simp add: categories)
    then show ?thesis
      using conforms_declared_tag tags by blast
  qed
  moreover have "conforms (TRef TableCell) x \<and> tag x = Some ''tableCell''"
    if r: "conforms (TRef TableRow) r" and x: "x \<in> set (children r)" for x
  proof -
    from conforms_children [OF r, of RowContent] x have "conforms RowContent x"
      by (simp add: props list_all_iff)
    then have "conforms (TRef TableCell) x"
      by (simp add: categories)
    then show ?thesis
      using conforms_declared_tag tags by blast
  qed
  moreover have "map snd TableContentMap = [TableRow]" "map snd RowContentMap = [TableCell]"
    by (simp_all add: TableContentMap_def RowContentMap_def)
  moreover have
    "conforms (TRef Table) (table_node rows) \<longleftrightarrow> list_all (conforms (TRef TableRow)) rows"
    by (simp add: table_node_def props categories list_all_iff)
  moreover have
    "conforms (TRef TableRow) (table_row_node cells) \<longleftrightarrow>
       list_all (conforms (TRef TableCell)) cells"
    by (simp add: table_row_node_def props categories list_all_iff)
  ultimately show ?thesis by blast
qed

theorem table_three_levels_witness:
  "conforms (TRef Table) (table_node [table_row_node [table_cell_node [text_node ''x'']]]) \<and>
   \<not> conforms (TRef Table) (table_node [table_cell_node [text_node ''x'']]) \<and>
   \<not> conforms (TRef TableRow) (table_row_node [text_node ''x'']) \<and>
   tag (table_row_node [table_cell_node [text_node ''x'']]) = Some ''tableRow''"
proof -
  have c: "conforms (TRef TableCell) (table_cell_node [text_node ''x''])"
    by (simp add: table_cell_node_def text_node_def props categories)
  have n: "\<not> conforms (TRef TableRow) (table_cell_node [text_node ''x''])"
    by (simp add: table_cell_node_def text_node_def props categories)
  have m: "\<not> conforms (TRef TableCell) (text_node ''x'')"
    by (simp add: text_node_def props categories)
  have g: "tag (table_row_node [table_cell_node [text_node ''x'']]) = Some ''tableRow''"
    by (simp add: table_row_node_def tag_def prop_of_def)
  show ?thesis
    using c n m g
      table_three_levels [of "table_node []" "table_row_node []"
        "[table_row_node [table_cell_node [text_node ''x'']]]" "[table_cell_node [text_node ''x'']]"]
      table_three_levels [of "table_node []" "table_row_node []"
        "[table_cell_node [text_node ''x'']]" "[text_node ''x'']"]
    by simp
qed

section \<open>Phrasing content and static phrasing content\<close>

text \<open>
  Claim C7: phrasing content is static phrasing content plus exactly \<open>link\<close> and
  \<open>linkReference\<close>. The phrasing map holds the entries of the static map and the two link
  entries, neither of which the static map has (by key or by interface), and a value is
  phrasing content exactly when it is static phrasing content, a \<open>Link\<close> or a \<open>LinkReference\<close>.
\<close>

theorem phrasing_is_static_plus_links:
  "set PhrasingContentMap =
     set StaticPhrasingContentMap \<union> {(''link'', Link), (''linkReference'', LinkReference)} \<and>
   fst ` set PhrasingContentMap =
     fst ` set StaticPhrasingContentMap \<union> {''link'', ''linkReference''} \<and>
   ''link'' \<notin> fst ` set StaticPhrasingContentMap \<and>
   ''linkReference'' \<notin> fst ` set StaticPhrasingContentMap \<and>
   Link \<notin> snd ` set StaticPhrasingContentMap \<and>
   LinkReference \<notin> snd ` set StaticPhrasingContentMap \<and>
   (conforms PhrasingContent v \<longleftrightarrow>
      conforms StaticPhrasingContent v \<or> conforms (TRef Link) v \<or> conforms (TRef LinkReference) v)"
proof -
  have "conforms PhrasingContent v \<longleftrightarrow>
      conforms StaticPhrasingContent v \<or> conforms (TRef Link) v \<or> conforms (TRef LinkReference) v"
    unfolding PhrasingContent_def StaticPhrasingContent_def conforms_indexed
      PhrasingContentMap_def
    by (simp del: conforms.simps)
  moreover have "set PhrasingContentMap =
     set StaticPhrasingContentMap \<union> {(''link'', Link), (''linkReference'', LinkReference)}"
    by (simp add: PhrasingContentMap_def)
  moreover have "fst ` set PhrasingContentMap =
     fst ` set StaticPhrasingContentMap \<union> {''link'', ''linkReference''}"
    by (simp add: PhrasingContentMap_def image_Un)
  moreover have "''link'' \<notin> fst ` set StaticPhrasingContentMap"
    "''linkReference'' \<notin> fst ` set StaticPhrasingContentMap"
    "Link \<notin> snd ` set StaticPhrasingContentMap"
    "LinkReference \<notin> snd ` set StaticPhrasingContentMap"
    by (simp_all add: StaticPhrasingContentMap_def)
  ultimately show ?thesis by blast
qed

theorem phrasing_is_static_plus_links_witness:
  "conforms PhrasingContent (link_node ''a'' [text_node ''x'']) \<and>
   conforms PhrasingContent (text_node ''x'') \<and>
   \<not> conforms PhrasingContent (Obj [(''value'', Str ''x'')])"
proof -
  have l: "conforms (TRef Link) (link_node ''a'' [text_node ''x''])"
    by (simp add: link_node_def text_node_def props categories scalars)
  have t: "conforms StaticPhrasingContent (text_node ''x'')"
    by (simp add: text_node_def props categories)
  have n: "\<not> conforms StaticPhrasingContent (Obj [(''value'', Str ''x'')])"
    by (simp add: props categories)
  have n': "\<not> conforms (TRef Link) (Obj [(''value'', Str ''x'')])"
    "\<not> conforms (TRef LinkReference) (Obj [(''value'', Str ''x'')])"
    by (simp_all add: props)
  show ?thesis
    using l t n n'
      phrasing_is_static_plus_links [of "link_node ''a'' [text_node ''x'']"]
      phrasing_is_static_plus_links [of "text_node ''x''"]
      phrasing_is_static_plus_links [of "Obj [(''value'', Str ''x'')]"]
    by blast
qed

section \<open>The two kinds of definition\<close>

text \<open>
  Claim C8: definition content registers \<open>Definition\<close> and \<open>FootnoteDefinition\<close>, of different
  shapes. \<open>Definition\<close> declares its tag, the Association bundle (\<open>identifier\<close>, optional
  \<open>label\<close>) and the Resource bundle (\<open>url\<close>, optional \<open>title\<close>), and no \<open>children\<close>.
  \<open>FootnoteDefinition\<close> declares its tag, the Association bundle and a required \<open>children\<close>
  array, each element of which is block content or definition content; it has no Resource
  bundle.
\<close>

theorem definition_shapes:
  "map snd DefinitionContentMap = [Definition, FootnoteDefinition] \<and>
   all_props Definition =
     [Req ''type'' (TStrLit ''definition''),
      Req ''identifier'' TString,
      Opt ''label'' string_null_undefined,
      Req ''url'' TString,
      Opt ''title'' string_null_undefined] \<and>
   ''children'' \<notin> set (map member_name (all_props Definition)) \<and>
   all_props FootnoteDefinition =
     [Req ''type'' (TStrLit ''footnoteDefinition''),
      Req ''children'' (TArray (TUnion [BlockContent, DefinitionContent])),
      Req ''identifier'' TString,
      Opt ''label'' string_null_undefined] \<and>
   (conforms (TRef Definition) d \<longrightarrow>
      (\<exists>i u. prop_of d ''identifier'' = Some (Str i) \<and> prop_of d ''url'' = Some (Str u))) \<and>
   (conforms (TRef FootnoteDefinition) f \<longrightarrow>
      (\<exists>cs. prop_of f ''children'' = Some (Arr cs) \<and>
        list_all (\<lambda>c. conforms BlockContent c \<or> conforms DefinitionContent c) cs))"
proof -
  have "\<exists>i u. prop_of d ''identifier'' = Some (Str i) \<and> prop_of d ''url'' = Some (Str u)"
    if d: "conforms (TRef Definition) d"
  proof -
    from conforms_Req [OF d, of "''identifier''" TString]
    obtain x where x: "prop_of d ''identifier'' = Some x" "conforms TString x"
      by (auto simp: props)
    from conforms_Req [OF d, of "''url''" TString]
    obtain y where y: "prop_of d ''url'' = Some y" "conforms TString y"
      by (auto simp: props)
    from x y show ?thesis
      by (cases x; cases y) simp_all
  qed
  moreover have "\<exists>cs. prop_of f ''children'' = Some (Arr cs) \<and>
        list_all (\<lambda>c. conforms BlockContent c \<or> conforms DefinitionContent c) cs"
    if f: "conforms (TRef FootnoteDefinition) f"
  proof -
    from conforms_Req [OF f, of "''children''" "TArray (TUnion [BlockContent, DefinitionContent])"]
    obtain x where x: "prop_of f ''children'' = Some x"
      "conforms (TArray (TUnion [BlockContent, DefinitionContent])) x"
      by (auto simp: props)
    from conforms_Array [OF x(2)] obtain cs
      where "x = Arr cs" "list_all (conforms (TUnion [BlockContent, DefinitionContent])) cs"
      by blast
    with x(1) show ?thesis
      by (auto simp: list_all_iff)
  qed
  moreover have "map snd DefinitionContentMap = [Definition, FootnoteDefinition]"
    by (simp add: DefinitionContentMap_def)
  moreover have "''children'' \<notin> set (map member_name (all_props Definition))"
    by (simp add: props)
  ultimately show ?thesis
    using props_Definition props_FootnoteDefinition by blast
qed

theorem definition_shapes_witness:
  "conforms (TRef Definition) (definition_node ''wiki'' ''https://en.wikipedia.org'') \<and>
   prop_of (definition_node ''wiki'' ''https://en.wikipedia.org'') ''children'' = None \<and>
   conforms (TRef FootnoteDefinition)
     (footnote_definition_node ''n1''
        [paragraph_node [text_node ''x''], definition_node ''wiki'' ''https://en.wikipedia.org'']) \<and>
   \<not> conforms (TRef FootnoteDefinition) (footnote_definition_node ''n1'' [Str ''x'']) \<and>
   \<not> conforms (TRef FootnoteDefinition) (definition_node ''wiki'' ''https://en.wikipedia.org'')"
proof -
  let ?d = "definition_node ''wiki'' ''https://en.wikipedia.org''"
  have d: "conforms (TRef Definition) ?d"
    by (simp add: definition_node_def props scalars)
  have k: "prop_of ?d ''children'' = None"
    by (simp add: definition_node_def prop_of_def)
  have f: "conforms (TRef FootnoteDefinition)
     (footnote_definition_node ''n1'' [paragraph_node [text_node ''x''], ?d])"
    by (simp add: footnote_definition_node_def paragraph_node_def text_node_def
        definition_node_def props categories scalars)
  have b: "\<not> conforms BlockContent (Str ''x'')" "\<not> conforms DefinitionContent (Str ''x'')"
    by (simp_all add: categories)
  have p: "prop_of (footnote_definition_node ''n1'' [Str ''x'']) ''children'' = Some (Arr [Str ''x''])"
    by (simp add: footnote_definition_node_def prop_of_def)
  from definition_shapes [of ?d "footnote_definition_node ''n1'' [Str ''x'']"] b p
  have n1: "\<not> conforms (TRef FootnoteDefinition) (footnote_definition_node ''n1'' [Str ''x''])"
    by auto
  from definition_shapes [of ?d ?d] k
  have n2: "\<not> conforms (TRef FootnoteDefinition) ?d"
    by auto
  from d k f n1 n2 show ?thesis by blast
qed

section \<open>File as a refinement of Image\<close>

lemma map_of_retag:
  "map_of (retag s fs) k =
     (if k = ''type'' then map_option (\<lambda>x. Str s) (map_of fs ''type'') else map_of fs k)"
  by (induction fs) (auto simp: retag_def)

lemma conforms_Ref_holds:
  "conforms (TRef n) (Obj fs) = list_all (holds fs) (all_props n)"
  by (simp add: holds_def [abs_def])

lemma conforms_Object_holds:
  "conforms (TObject ps) (Obj fs) = list_all (holds fs) ps"
  by (simp add: holds_def [abs_def])

lemma holds_retag:
  "member_name m \<noteq> ''type'' \<Longrightarrow> holds (retag s fs) m = holds fs m"
  by (cases m) (simp_all add: holds_def map_of_retag)

text \<open>
  Claim C9, as the claim states it: \<open>File\<close> declares every attribute of \<open>Image\<close> but the tag
  identically and adds only \<open>page\<close>, \<open>thumbtime\<close>, \<open>start\<close> and \<open>end\<close>; hence any attribute
  record valid for image, the tag ignored, is valid for file. The last step does not follow.
  Conformance looks at declared properties only, and \<open>Image\<close> does not declare \<open>page\<close>: a
  record whose \<open>page\<close> is the string \<open>two\<close> conforms to \<open>Image\<close>, and the same record tagged
  \<open>file\<close> does not conform to \<open>File\<close>, which wants a number there.
\<close>

theorem file_refines_image_counterexample:
  "conforms (TRef Image)
     (Obj [(''type'', Str ''image''),
           (''prefix'', Str ''Image''),
           (''name'', Str ''My Image.png''),
           (''url'', Str ''My Image.png''),
           (''page'', Str ''two'')]) \<and>
   \<not> conforms (TRef File)
     (Obj (retag ''file''
        [(''type'', Str ''image''),
         (''prefix'', Str ''Image''),
         (''name'', Str ''My Image.png''),
         (''url'', Str ''My Image.png''),
         (''page'', Str ''two'')]))"
  by (simp add: retag_def props omit_def categories scalars)

text \<open>
  Claim C9, amended. Every property \<open>Image\<close> declares, the tag apart, is a property of \<open>File\<close>
  with the same name, type and optionality; every property of \<open>File\<close> is one of those, its
  own tag, or one of the four added ones, which \<open>File\<close> does declare; no name is declared
  twice, and the names \<open>File\<close> has and \<open>Image\<close> has not are exactly the four. Hence a record
  that conforms to \<open>Image\<close> conforms to \<open>File\<close>, once tagged \<open>file\<close>, exactly when what it
  holds under \<open>page\<close>, \<open>thumbtime\<close>, \<open>start\<close> and \<open>end\<close> is valid for \<open>File\<close>: absent,
  undefined, or a number (for \<open>thumbtime\<close> the string \<open>Time\<close>).
\<close>

theorem file_refines_image:
  "(\<forall>m \<in> set (all_props Image). member_name m \<noteq> ''type'' \<longrightarrow> m \<in> set (all_props File)) \<and>
   (\<forall>m \<in> set (all_props File).
      m \<in> set (all_props Image) \<or>
      m \<in> {Req ''type'' (TStrLit ''file''), Opt ''page'' TNumber,
           Opt ''thumbtime'' (TStrLit ''Time''), Opt ''start'' TNumber, Opt ''end'' TNumber}) \<and>
   {Req ''type'' (TStrLit ''file''), Opt ''page'' TNumber, Opt ''thumbtime'' (TStrLit ''Time''),
    Opt ''start'' TNumber, Opt ''end'' TNumber} \<subseteq> set (all_props File) \<and>
   distinct (map member_name (all_props File)) \<and>
   filter (\<lambda>k. k \<notin> set (map member_name (all_props Image))) (map member_name (all_props File)) =
     [''page'', ''thumbtime'', ''start'', ''end''] \<and>
   (conforms (TRef Image) (Obj fs) \<longrightarrow>
      (conforms (TRef File) (Obj (retag ''file'' fs)) \<longleftrightarrow>
       conforms
         (TObject [Opt ''page'' TNumber, Opt ''thumbtime'' (TStrLit ''Time''),
                   Opt ''start'' TNumber, Opt ''end'' TNumber])
         (Obj fs)))"
proof -
  have a: "\<forall>m \<in> set (all_props Image). member_name m \<noteq> ''type'' \<longrightarrow> m \<in> set (all_props File)"
    by (simp add: props omit_def)
  have b: "\<forall>m \<in> set (all_props File).
      m \<in> set (all_props Image) \<or>
      m \<in> {Req ''type'' (TStrLit ''file''), Opt ''page'' TNumber,
           Opt ''thumbtime'' (TStrLit ''Time''), Opt ''start'' TNumber, Opt ''end'' TNumber}"
    by (simp add: props omit_def)
  have c: "{Req ''type'' (TStrLit ''file''), Opt ''page'' TNumber, Opt ''thumbtime'' (TStrLit ''Time''),
    Opt ''start'' TNumber, Opt ''end'' TNumber} \<subseteq> set (all_props File)"
    by (simp add: props omit_def)
  have d: "distinct (map member_name (all_props File))"
    by (simp add: props omit_def)
  have e: "filter (\<lambda>k. k \<notin> set (map member_name (all_props Image))) (map member_name (all_props File)) =
     [''page'', ''thumbtime'', ''start'', ''end'']"
    by (simp add: props omit_def)
  have f: "conforms (TRef File) (Obj (retag ''file'' fs)) \<longleftrightarrow>
       conforms
         (TObject [Opt ''page'' TNumber, Opt ''thumbtime'' (TStrLit ''Time''),
                   Opt ''start'' TNumber, Opt ''end'' TNumber])
         (Obj fs)"
    if i: "conforms (TRef Image) (Obj fs)"
  proof -
    from conforms_Req [OF i, of "''type''" "TStrLit ''image''"]
    have t: "map_of fs ''type'' = Some (Str ''image'')"
      by (simp add: props prop_of_def)
    from i have "list_all (holds fs) (all_props Image)"
      by (simp only: conforms_Ref_holds)
    then have "list_all (holds fs) (omit [''type''] (all_props Image))"
      by (simp add: omit_def list_all_iff)
    then have inherited: "list_all (holds (retag ''file'' fs)) (omit [''type''] (all_props Image))"
      by (simp add: omit_def list_all_iff holds_retag)
    have own: "holds (retag ''file'' fs) (Req ''type'' (TStrLit ''file''))"
      by (simp add: holds_def map_of_retag t)
    have "conforms (TRef File) (Obj (retag ''file'' fs)) \<longleftrightarrow>
        list_all (holds (retag ''file'' fs))
          [Opt ''page'' TNumber, Opt ''thumbtime'' (TStrLit ''Time''),
           Opt ''start'' TNumber, Opt ''end'' TNumber]"
      using inherited own
      by (simp add: conforms_Ref_holds props_File del: conforms.simps)
    also have "\<dots> \<longleftrightarrow> list_all (holds fs)
          [Opt ''page'' TNumber, Opt ''thumbtime'' (TStrLit ''Time''),
           Opt ''start'' TNumber, Opt ''end'' TNumber]"
      by (simp add: holds_retag)
    finally show ?thesis
      by (simp add: conforms_Object_holds del: conforms.simps)
  qed
  from a b c d e f show ?thesis by blast
qed

theorem file_refines_image_witness:
  "conforms (TRef Image)
     (Obj [(''type'', Str ''image''),
           (''prefix'', Str ''Image''),
           (''name'', Str ''My Image.png''),
           (''url'', Str ''My Image.png''),
           (''size'', Str ''10x20px''),
           (''kind'', Str ''thumb'')]) \<and>
   conforms (TRef File)
     (Obj [(''type'', Str ''file''),
           (''prefix'', Str ''Image''),
           (''name'', Str ''My Image.png''),
           (''url'', Str ''My Image.png''),
           (''size'', Str ''10x20px''),
           (''kind'', Str ''thumb'')]) \<and>
   Opt ''size''
     (TUnion
        [TStrLit ''upright'',
         TTemplate [Chunk ''upright='', AnyNumber],
         TTemplate [AnyNumber, Chunk ''px''],
         TTemplate [Chunk ''x'', AnyNumber, Chunk ''px''],
         TTemplate [AnyNumber, Chunk ''x'', AnyNumber, Chunk ''px'']]) \<in> set (all_props File) \<and>
   Req ''type'' (TStrLit ''image'') \<notin> set (all_props File)"
proof -
  let ?fs = "[(''type'', Str ''image''),
           (''prefix'', Str ''Image''),
           (''name'', Str ''My Image.png''),
           (''url'', Str ''My Image.png''),
           (''size'', Str ''10x20px''),
           (''kind'', Str ''thumb'')]"
  let ?size = "Opt ''size''
     (TUnion
        [TStrLit ''upright'',
         TTemplate [Chunk ''upright='', AnyNumber],
         TTemplate [AnyNumber, Chunk ''px''],
         TTemplate [Chunk ''x'', AnyNumber, Chunk ''px''],
         TTemplate [AnyNumber, Chunk ''x'', AnyNumber, Chunk ''px'']])"
  have i: "conforms (TRef Image) (Obj ?fs)"
    by (simp add: props categories scalars number_string_def unsigned_def
      mantissa_ok_def exponent_ok_def digits_def is_digit_def is_exp_mark_def)
  have added: "conforms
         (TObject [Opt ''page'' TNumber, Opt ''thumbtime'' (TStrLit ''Time''),
                   Opt ''start'' TNumber, Opt ''end'' TNumber])
         (Obj ?fs)"
    by simp
  have r: "retag ''file'' ?fs =
        [(''type'', Str ''file''),
           (''prefix'', Str ''Image''),
           (''name'', Str ''My Image.png''),
           (''url'', Str ''My Image.png''),
           (''size'', Str ''10x20px''),
           (''kind'', Str ''thumb'')]"
    by (simp add: retag_def)
  have m: "?size \<in> set (all_props Image)" "member_name ?size \<noteq> ''type''"
    by (simp_all add: props)
  have n: "Req ''type'' (TStrLit ''image'') \<notin>
      {Req ''type'' (TStrLit ''file''), Opt ''page'' TNumber,
       Opt ''thumbtime'' (TStrLit ''Time''), Opt ''start'' TNumber, Opt ''end'' TNumber}"
    by simp
  note all = file_refines_image [of ?fs]
  have kept: "\<forall>m \<in> set (all_props Image). member_name m \<noteq> ''type'' \<longrightarrow> m \<in> set (all_props File)"
    by (rule all [THEN conjunct1])
  have five: "{Req ''type'' (TStrLit ''file''), Opt ''page'' TNumber,
      Opt ''thumbtime'' (TStrLit ''Time''), Opt ''start'' TNumber, Opt ''end'' TNumber}
      \<subseteq> set (all_props File)"
    by (rule all [THEN conjunct2, THEN conjunct2, THEN conjunct1])
  have dist: "distinct (map member_name (all_props File))"
    by (rule all [THEN conjunct2, THEN conjunct2, THEN conjunct2, THEN conjunct1])
  have iff: "conforms (TRef Image) (Obj ?fs) \<longrightarrow>
      (conforms (TRef File) (Obj (retag ''file'' ?fs)) \<longleftrightarrow>
       conforms
         (TObject [Opt ''page'' TNumber, Opt ''thumbtime'' (TStrLit ''Time''),
                   Opt ''start'' TNumber, Opt ''end'' TNumber])
         (Obj ?fs))"
    by (rule all [THEN conjunct2, THEN conjunct2, THEN conjunct2, THEN conjunct2,
          THEN conjunct2])
  from iff i added have f: "conforms (TRef File) (Obj (retag ''file'' ?fs))"
    by (simp only: simp_thms)
  from kept [rule_format, OF m] have s: "?size \<in> set (all_props File)" .
  from five have tm: "Req ''type'' (TStrLit ''file'') \<in> set (all_props File)"
    by (simp only: insert_subset)
  from dist have inj: "inj_on member_name (set (all_props File))"
    by (simp only: distinct_map)
  have t: "Req ''type'' (TStrLit ''image'') \<notin> set (all_props File)"
  proof
    assume "Req ''type'' (TStrLit ''image'') \<in> set (all_props File)"
    from inj_onD [OF inj _ this tm] show False
      by simp
  qed
  from i f s t show ?thesis
    by (simp only: r simp_thms)
qed

section \<open>Nodes held in properties other than children\<close>

text \<open>
  Claim C10: nodes are also embedded outside the \<open>children\<close> sequence. \<open>Redirect\<close> declares a
  tag and a required \<open>value\<close> of type \<open>Link\<close> and no children, so every redirect holds a link
  node in \<open>value\<close>. \<open>Image\<close> declares no children either, an optional \<open>link\<close> of type \<open>Link\<close>
  and an optional \<open>caption\<close> of phrasing content, and an image with both conforms exactly when
  each is undefined or a node of its type.
\<close>

theorem nodes_in_attribute_positions:
  "all_props Redirect = [Req ''type'' (TStrLit ''redirect''), Req ''value'' (TRef Link)] \<and>
   (conforms (TRef Redirect) r \<longrightarrow>
      (\<exists>l. prop_of r ''value'' = Some l \<and> conforms (TRef Link) l \<and> tag l = Some ''link'')) \<and>
   (conforms (TRef Redirect) (redirect_node l) \<longleftrightarrow> conforms (TRef Link) l) \<and>
   Opt ''link'' (TRef Link) \<in> set (all_props Image) \<and>
   Opt ''caption'' PhrasingContent \<in> set (all_props Image) \<and>
   ''children'' \<notin> set (map member_name (all_props Image)) \<and>
   (conforms (TRef Image) (image_node [(''link'', l), (''caption'', c)]) \<longleftrightarrow>
      (l = Undefined \<or> conforms (TRef Link) l) \<and>
      (c = Undefined \<or> conforms PhrasingContent c))"
proof -
  have "\<exists>l. prop_of r ''value'' = Some l \<and> conforms (TRef Link) l \<and> tag l = Some ''link''"
    if r: "conforms (TRef Redirect) r"
  proof -
    from conforms_Req [OF r, of "''value''" "TRef Link"]
    obtain l where l: "prop_of r ''value'' = Some l" "conforms (TRef Link) l"
      by (auto simp: props)
    have "declared_tag Link = Some ''link''"
      by (simp add: declared_tag_def props)
    with l show ?thesis
      using conforms_declared_tag by blast
  qed
  moreover have "conforms (TRef Redirect) (redirect_node l) \<longleftrightarrow> conforms (TRef Link) l"
    by (simp add: redirect_node_def props)
  moreover have "Opt ''link'' (TRef Link) \<in> set (all_props Image)"
    "Opt ''caption'' PhrasingContent \<in> set (all_props Image)"
    "''children'' \<notin> set (map member_name (all_props Image))"
    by (simp_all add: props)
  moreover have "conforms (TRef Image) (image_node [(''link'', l), (''caption'', c)]) \<longleftrightarrow>
      (l = Undefined \<or> conforms (TRef Link) l) \<and>
      (c = Undefined \<or> conforms PhrasingContent c)"
    by (simp add: image_node_def props(31))
  ultimately show ?thesis
    using props_Redirect by blast
qed

theorem nodes_in_attribute_positions_witness:
  "conforms (TRef Redirect) (redirect_node (link_node ''United States'' [text_node ''United States''])) \<and>
   children (redirect_node (link_node ''United States'' [text_node ''United States''])) = [] \<and>
   \<not> conforms (TRef Redirect) (redirect_node (text_node ''United States'')) \<and>
   conforms (TRef Image)
     (image_node [(''link'', link_node ''a'' []), (''caption'', emphasis_node [text_node ''A caption''])]) \<and>
   \<not> conforms (TRef Image) (image_node [(''link'', text_node ''a''), (''caption'', Undefined)])"
proof -
  let ?l = "link_node ''United States'' [text_node ''United States'']"
  have l: "conforms (TRef Link) ?l" "conforms (TRef Link) (link_node ''a'' [])"
    by (simp_all add: link_node_def text_node_def props categories scalars)
  have k: "children (redirect_node ?l) = []"
    by (simp add: redirect_node_def children_def prop_of_def)
  have t: "\<not> conforms (TRef Link) (text_node ''United States'')"
    "\<not> conforms (TRef Link) (text_node ''a'')" "text_node ''a'' \<noteq> Undefined"
    by (simp_all add: text_node_def props)
  have c: "conforms PhrasingContent (emphasis_node [text_node ''A caption''])"
    by (simp add: emphasis_node_def text_node_def props categories)
  show ?thesis
    using l k t c
      nodes_in_attribute_positions [of "redirect_node ?l" ?l "emphasis_node [text_node ''A caption'']"]
      nodes_in_attribute_positions [of "redirect_node ?l" "text_node ''United States''" Undefined]
      nodes_in_attribute_positions [of "redirect_node ?l" "link_node ''a'' []"
        "emphasis_node [text_node ''A caption'']"]
      nodes_in_attribute_positions [of "redirect_node ?l" "text_node ''a''" Undefined]
    by blast
qed

end
